theory Spec2Isabelle
  imports Main "HOL-Library.Word" "HOL-Library.AList"
begin

unbundle bit_operations_syntax

section \<open>Python values and exceptions\<close>

text \<open>
  Hashable Python values that occur as dictionary keys: \<open>None\<close>, integers (a bool is the
  integer 0 or 1 as a key) and strings.
\<close>

datatype pykey = KNone | KInt int | KStr string

text \<open>
  The values an XML-RPC reply is decoded to. A dictionary is an association list in
  insertion order whose keys are distinct. Doubles, dates and binary blobs are not modelled.
\<close>

datatype pyval =
    PNone
  | PBool bool
  | PInt int
  | PStr string
  | PList "pyval list"
  | PDict "(pykey \<times> pyval) list"

text \<open>
  The exception classes of the module (lines 43 to 107 of osdbinfos/osdbinfos.py), each with
  the message it is raised with, followed by the exceptions of the transport and the
  built-in exceptions the code can meet.
\<close>

datatype error =
    OpenSutitlesError string
  | OpenSutitlesTimeoutError
  | OpenSutitlesServiceUnavailable
  | OpenSutitlesInvalidParam string
  | OpenSutitlesNetworkError string
  | UnauthorizedOpenSutitlesError string
  | MandatoryParameterMissing string
  | NoSessionOpenSubtitlesError string
  | DownloadLimitReachedOpenSutitleError string
  | InvalidParametersOpenSutitlesError string
  | MethodNotFoundOpenSutitlesError string
  | UnknownOpenSubtitlesError string
  | InvalidUserAgentOpenSubtitlesError string
  | DisabledUserAgentOpenSubtitlesError string
  | InvalidResultOpenSutitlesError string
  | SocketTimeout
  | ProtocolError int string
  | SocketError string
  | OtherException string
  | KeyError pykey
  | TypeError
  | AttributeError
  | IndexError
  | ValueError
  | UnboundLocalError
  | StructError

section \<open>The fingerprint: \<open>get_hash\<close>\<close>

type_synonym byte = "8 word"

text \<open>
  What \<open>open(path, "rb")\<close> and the reads give: an \<open>IOError\<close>, or the bytes of the file.
\<close>

datatype file_access = Unreadable | Readable "byte list"

type_synonym filesystem = "string \<Rightarrow> file_access"

fun le_uint :: "byte list \<Rightarrow> nat" where
  "le_uint [] = 0"
| "le_uint (b # bs) = unat b + 256 * le_uint bs"

text \<open>
  \<open>struct.unpack(b'q', buffer)\<close> on a little-endian machine: a buffer that is not eight bytes
  long raises \<open>struct.error\<close>, eight bytes are read as a signed 64-bit integer.
\<close>

definition unpack_q :: "byte list \<Rightarrow> error + int" where
  "unpack_q buffer =
     (if length buffer \<noteq> 8 then Inl StructError
      else let u = int (le_uint buffer) in
        Inr (if u < 2 ^ 63 then u else u - 2 ^ 64))"

text \<open>
  One of the two loops \<open>for x in range(int(65536 / bytesize))\<close>, with the number of rounds
  left, the file, the position of the file object and the running hash. \<open>f.read(bytesize)\<close>
  returns at most eight bytes from the position and advances it by what it returned.
\<close>

fun hash_window :: "nat \<Rightarrow> byte list \<Rightarrow> nat \<Rightarrow> int \<Rightarrow> error + (int \<times> nat)" where
  "hash_window 0 f pos hash = Inr (hash, pos)"
| "hash_window (Suc k) f pos hash =
     (let buffer = take 8 (drop pos f) in
      case unpack_q buffer of
        Inl e \<Rightarrow> Inl e
      | Inr l_value \<Rightarrow>
          hash_window k f (pos + length buffer) ((hash + l_value) AND 0xFFFFFFFFFFFFFFFF))"

fun hex_digits :: "nat \<Rightarrow> string" where
  "hex_digits n =
     (if n < 16 then [''0123456789abcdef'' ! n]
      else hex_digits (n div 16) @ [''0123456789abcdef'' ! (n mod 16)])"

declare hex_digits.simps [simp del]

definition rjust :: "nat \<Rightarrow> char \<Rightarrow> string \<Rightarrow> string" where
  "rjust width fillchar s = replicate (width - length s) fillchar @ s"

text \<open>\<open>"%016x" % hash\<close>: lowercase hexadecimal, padded with zeros (after the sign) to sixteen.\<close>

definition fmt_016x :: "int \<Rightarrow> string" where
  "fmt_016x hash =
     (if hash < 0 then CHR ''-'' # rjust 15 (CHR ''0'') (hex_digits (nat (- hash)))
      else rjust 16 (CHR ''0'') (hex_digits (nat hash)))"

text \<open>
  \<open>get_hash\<close> (lines 184 to 217). An \<open>IOError\<close> is caught and gives \<open>None\<close>; a
  \<open>struct.error\<close> is not caught.
\<close>

definition get_hash :: "filesystem \<Rightarrow> string \<Rightarrow> error + string option" where
  "get_hash fs path =
     (case fs path of
        Unreadable \<Rightarrow> Inr None
      | Readable f \<Rightarrow>
          (let filesize = length f; hash = int filesize in
           if filesize < 65536 * 2 then Inr None
           else
             case hash_window 8192 f 0 hash of
               Inl e \<Rightarrow> Inl e
             | Inr (hash1, _) \<Rightarrow>
                 (case hash_window 8192 f (nat (max 0 (int filesize - 65536))) hash1 of
                    Inl e \<Rightarrow> Inl e
                  | Inr (hash2, _) \<Rightarrow> Inr (Some (fmt_016x hash2)))))"

section \<open>Python strings and dictionaries\<close>


text \<open>The key a value is stored under; lists and dictionaries are unhashable.\<close>

fun key_of :: "pyval \<Rightarrow> pykey option" where
  "key_of PNone = Some KNone"
| "key_of (PBool b) = Some (KInt (if b then 1 else 0))"
| "key_of (PInt i) = Some (KInt i)"
| "key_of (PStr s) = Some (KStr s)"
| "key_of (PList xs) = None"
| "key_of (PDict d) = None"

fun val_of_key :: "pykey \<Rightarrow> pyval" where
  "val_of_key KNone = PNone"
| "val_of_key (KInt i) = PInt i"
| "val_of_key (KStr s) = PStr s"

text \<open>Truthiness, for \<open>self.token or False\<close>.\<close>

fun truthy :: "pyval \<Rightarrow> bool" where
  "truthy PNone = False"
| "truthy (PBool b) = b"
| "truthy (PInt i) = (i \<noteq> 0)"
| "truthy (PStr s) = (s \<noteq> [])"
| "truthy (PList xs) = (xs \<noteq> [])"
| "truthy (PDict d) = (d \<noteq> [])"

text \<open>\<open>len(v)\<close> and \<open>v[k]\<close>, with the exceptions they raise on the other types.\<close>

fun py_len :: "pyval \<Rightarrow> error + nat" where
  "py_len (PStr s) = Inr (length s)"
| "py_len (PList xs) = Inr (length xs)"
| "py_len (PDict d) = Inr (length d)"
| "py_len _ = Inl TypeError"

definition py_index :: "'a list \<Rightarrow> int \<Rightarrow> error + 'a" where
  "py_index xs i =
     (if 0 \<le> i \<and> i < int (length xs) then Inr (xs ! nat i)
      else if i < 0 \<and> - int (length xs) \<le> i then Inr (xs ! nat (int (length xs) + i))
      else Inl IndexError)"

fun py_getitem :: "pyval \<Rightarrow> pykey \<Rightarrow> error + pyval" where
  "py_getitem (PDict d) k = (case map_of d k of None \<Rightarrow> Inl (KeyError k) | Some v \<Rightarrow> Inr v)"
| "py_getitem (PList xs) (KInt i) = py_index xs i"
| "py_getitem (PStr s) (KInt i) =
     (case py_index s i of Inl e \<Rightarrow> Inl e | Inr ch \<Rightarrow> Inr (PStr [ch]))"
| "py_getitem _ _ = Inl TypeError"

text \<open>
  Strings are ASCII here; \<open>str.strip()\<close> and \<open>int()\<close> drop the characters \<open>str.isspace\<close>
  accepts.
\<close>

definition is_space :: "char \<Rightarrow> bool" where
  "is_space c = ((of_char c :: nat) \<in> {9, 10, 11, 12, 13, 28, 29, 30, 31, 32})"

definition strip :: "string \<Rightarrow> string" where
  "strip s = rev (dropWhile is_space (rev (dropWhile is_space s)))"

definition startswith :: "string \<Rightarrow> string \<Rightarrow> bool" where
  "startswith s p = (take (length p) s = p)"

text \<open>\<open>sub in s\<close> on strings.\<close>

fun contains :: "string \<Rightarrow> string \<Rightarrow> bool" where
  "contains sub [] = (sub = [])"
| "contains sub (c # s) = (startswith (c # s) sub \<or> contains sub s)"

text \<open>\<open>s.split(sep)\<close> for a separator of one character: never the empty list.\<close>

fun split_on :: "char \<Rightarrow> string \<Rightarrow> string list" where
  "split_on sep [] = [[]]"
| "split_on sep (c # s) =
     (if c = sep then [] # split_on sep s
      else (case split_on sep s of [] \<Rightarrow> [[c]] | p # ps \<Rightarrow> (c # p) # ps))"

text \<open>
  \<open>s.replace(old, new)\<close> for a non-empty \<open>old\<close>: the occurrences are taken from the left and
  do not overlap.
\<close>

function replace :: "string \<Rightarrow> string \<Rightarrow> string \<Rightarrow> string" where
  "replace old new [] = []"
| "replace old new (c # s) =
     (if old \<noteq> [] \<and> startswith (c # s) old
      then new @ replace old new (drop (length old) (c # s))
      else c # replace old new s)"
  by pat_completeness auto
termination
  by (relation "measure (\<lambda>(old, new, s). length s)") (auto simp: startswith_def)

definition dquote :: char where
  "dquote = CHR 0x22"

definition is_digit :: "char \<Rightarrow> bool" where
  "is_digit c = (48 \<le> (of_char c :: nat) \<and> (of_char c :: nat) \<le> 57)"

definition digit_val :: "char \<Rightarrow> int" where
  "digit_val c = int (of_char c) - 48"

text \<open>
  \<open>int(s)\<close> on a string: surrounding whitespace is dropped, one sign is allowed, then decimal
  digits, where single underscores may stand between two digits. \<open>int_body\<close> reads what
  follows a digit.
\<close>

fun int_body :: "int \<Rightarrow> string \<Rightarrow> int option" where
  "int_body acc [] = Some acc"
| "int_body acc [c] = (if is_digit c then Some (10 * acc + digit_val c) else None)"
| "int_body acc (c # d # s) =
     (if is_digit c then int_body (10 * acc + digit_val c) (d # s)
      else if c = CHR ''_'' \<and> is_digit d then int_body (10 * acc + digit_val d) s
      else None)"

definition int_unsigned :: "string \<Rightarrow> int option" where
  "int_unsigned s =
     (case s of [] \<Rightarrow> None
      | c # r \<Rightarrow> if is_digit c then int_body (digit_val c) r else None)"

definition int_of_str :: "string \<Rightarrow> int option" where
  "int_of_str s =
     (case strip s of
        [] \<Rightarrow> None
      | c # r \<Rightarrow>
          if c = CHR ''-'' then map_option uminus (int_unsigned r)
          else if c = CHR ''+'' then int_unsigned r
          else int_unsigned (c # r))"

text \<open>\<open>int(v)\<close>: \<open>TypeError\<close> on \<open>None\<close>, lists and dictionaries, \<open>ValueError\<close> on a bad string.\<close>

fun py_int :: "pyval \<Rightarrow> error + int" where
  "py_int (PInt i) = Inr i"
| "py_int (PBool b) = Inr (if b then 1 else 0)"
| "py_int (PStr s) = (case int_of_str s of None \<Rightarrow> Inl ValueError | Some i \<Rightarrow> Inr i)"
| "py_int _ = Inl TypeError"

section \<open>The client and the remote service\<close>

text \<open>The contents of the state file \<open>osdbinfos.dat\<close>.\<close>

datatype state_file = Missing | Undecodable | Saved int pyval

text \<open>The calls issued through \<open>self.server\<close>, with their arguments.\<close>

datatype rpc_call =
    CallLogIn string string
  | CallCheckMovieHash pyval "pykey list"
  | CallInsertMovieHash pyval "(pykey \<times> pyval) list list"

text \<open>
  The fields of an \<open>OpenSutitles\<close> object, the state file it reads and writes, and the calls
  it has issued so far (oldest first). Times are microseconds.
\<close>

record client =
  token :: pyval
  user :: string
  password :: string
  last_query_time :: "int option"
  state_file :: state_file
  calls :: "rpc_call list"

text \<open>A reply of \<open>CheckMovieHash\<close> or \<open>InsertMovieHash\<close>: \<open>res['status']\<close> and \<open>res['data']\<close>.\<close>

record reply =
  status :: string
  data :: pyval

text \<open>
  The remote service: what each method returns or raises (\<open>socket.timeout\<close>,
  \<open>xmlrpclib.ProtocolError\<close>, \<open>socket.error\<close> or another exception) for its arguments.
  \<open>LogIn\<close> returns \<open>None\<close> or a struct.
\<close>

record server =
  LogIn :: "string \<Rightarrow> string \<Rightarrow> error + (pykey \<times> pyval) list option"
  CheckMovieHash :: "pyval \<Rightarrow> pykey list \<Rightarrow> error + reply"
  InsertMovieHash :: "pyval \<Rightarrow> (pykey \<times> pyval) list list \<Rightarrow> error + reply"

definition TOKEN_EXPIRATION :: int where
  "TOKEN_EXPIRATION = 14 * 60 * 1000000"

definition STATUS_OK :: string where
  "STATUS_OK = ''200 OK''"

definition ERROR_STATUS_EXCEPTIONS :: "(string \<times> (string \<Rightarrow> error)) list" where
  "ERROR_STATUS_EXCEPTIONS =
     [(''401'', UnauthorizedOpenSutitlesError),
      (''405'', MandatoryParameterMissing),
      (''406'', NoSessionOpenSubtitlesError),
      (''407'', DownloadLimitReachedOpenSutitleError),
      (''408'', InvalidParametersOpenSutitlesError),
      (''409'', MethodNotFoundOpenSutitlesError),
      (''410'', UnknownOpenSubtitlesError),
      (''411'', InvalidUserAgentOpenSubtitlesError),
      (''415'', DisabledUserAgentOpenSubtitlesError)]"

text \<open>
  \<open>load_state\<close> (lines 147 to 157): a missing file and a file that is not JSON leave the
  fields as they are.
\<close>

definition load_state :: "client \<Rightarrow> client" where
  "load_state c =
     (case state_file c of
        Missing \<Rightarrow> c
      | Undecodable \<Rightarrow> c
      | Saved t tok \<Rightarrow> c\<lparr>last_query_time := Some t, token := tok\<rparr>)"

text \<open>\<open>__init__\<close> (lines 128 to 137), given what the state file holds.\<close>

definition init :: "string \<Rightarrow> string \<Rightarrow> state_file \<Rightarrow> client" where
  "init usr pwd file =
     load_state \<lparr>token = PNone, user = usr, password = pwd, last_query_time = None,
       state_file = file, calls = []\<rparr>"

text \<open>\<open>store_state\<close> (lines 139 to 145); \<open>None.timestamp()\<close> raises \<open>AttributeError\<close>.\<close>

definition store_state :: "client \<Rightarrow> (error + unit) \<times> client" where
  "store_state c =
     (case last_query_time c of
        None \<Rightarrow> (Inl AttributeError, c)
      | Some t \<Rightarrow> (Inr (), c\<lparr>state_file := Saved t (token c)\<rparr>))"

text \<open>
  \<open>is_token_expired\<close> (lines 159 to 168), given what \<open>datetime.now()\<close> returns. One
  operation of the client reads the clock more than once; all its readings are the one
  time \<open>now\<close> here.
\<close>

definition is_token_expired :: "int \<Rightarrow> client \<Rightarrow> bool" where
  "is_token_expired now c =
     (if token c = PNone then True
      else case last_query_time c of
        None \<Rightarrow> True
      | Some t \<Rightarrow> if t + TOKEN_EXPIRATION \<le> now then True else False)"

text \<open>
  \<open>register\<close> (lines 170 to 182): a timeout of the login is raised as
  \<open>OpenSutitlesTimeoutError\<close>, any other exception of the call as it is.
\<close>

definition register :: "server \<Rightarrow> int \<Rightarrow> client \<Rightarrow> (error + unit) \<times> client" where
  "register srv now c =
     (if is_token_expired now c then
        (let c1 = c\<lparr>calls := calls c @ [CallLogIn (user c) (password c)]\<rparr> in
         case LogIn srv (user c) (password c) of
           Inl e \<Rightarrow> (Inl (if e = SocketTimeout then OpenSutitlesTimeoutError else e), c1)
         | Inr result \<Rightarrow>
             (case result of
                None \<Rightarrow> (Inr (), c1)
              | Some d \<Rightarrow>
                  (case map_of d (KStr ''token'') of
                     None \<Rightarrow> (Inr (), c1)
                   | Some tok \<Rightarrow> (Inr (), c1\<lparr>token := tok\<rparr>))))
      else (Inr (), c))"

text \<open>\<open>self.token or False\<close>, the first argument of both calls.\<close>

definition token_or_False :: "client \<Rightarrow> pyval" where
  "token_or_False c = (if truthy (token c) then token c else PBool False)"

section \<open>Parsing a reply: \<open>_parse_dict\<close>\<close>

text \<open>The dictionary \<open>result\<close> built for one entry of the reply.\<close>

type_synonym media_record = "(string \<times> pyval) list"

text \<open>\<open>clean_imdbid\<close> (lines 219 to 223); a value that is no string has no \<open>startswith\<close>.\<close>

fun clean_imdbid :: "pyval \<Rightarrow> error + pyval" where
  "clean_imdbid (PStr imdbid) =
     Inr (PStr (if \<not> startswith imdbid ''tt'' then ''tt'' @ rjust 7 (CHR ''0'') imdbid
                else imdbid))"
| "clean_imdbid _ = Inl AttributeError"

text \<open>
  \<open>result[field] = int(result[field])\<close> inside \<open>try\<close>, where \<open>TypeError\<close> and \<open>ValueError\<close>
  are logged and leave \<open>result\<close> as it is (lines 303 to 315).
\<close>

definition coerce_int :: "string \<Rightarrow> media_record \<Rightarrow> error + media_record" where
  "coerce_int field result =
     (case map_of result field of
        None \<Rightarrow> Inl (KeyError (KStr field))
      | Some v \<Rightarrow>
          (case py_int v of
             Inr i \<Rightarrow> Inr (AList.update field (PInt i) result)
           | Inl e \<Rightarrow> if e = TypeError \<or> e = ValueError then Inr result else Inl e))"

text \<open>
  The two assignments of the titles inside \<open>try\<close> (lines 295 to 299): the first \<open>IndexError\<close>
  ends the block, what was assigned before stays.
\<close>

definition split_titles :: "string \<Rightarrow> media_record \<Rightarrow> media_record" where
  "split_titles title result =
     (let parts = split_on dquote title in
      if 1 < length parts then
        (let result1 = AList.update ''serie_title'' (PStr (strip (parts ! 1))) result in
         if 2 < length parts
         then AList.update ''episode_title'' (PStr (strip (parts ! 2))) result1
         else result1)
      else result)"

text \<open>The branch \<open>kind == "episode"\<close> (lines 293 to 315).\<close>

definition parse_episode :: "(pykey \<times> pyval) list \<Rightarrow> media_record \<Rightarrow> error + media_record" where
  "parse_episode datas result =
     (case map_of datas (KStr ''MovieName'') of
        None \<Rightarrow> Inl (KeyError (KStr ''MovieName''))
      | Some (PStr title) \<Rightarrow>
          (let result1 = split_titles title result;
               result2 = AList.update ''season_number''
                 (case map_of datas (KStr ''SeriesSeason'') of None \<Rightarrow> PNone | Some v \<Rightarrow> v)
                 result1;
               result3 = AList.update ''episode_number''
                 (case map_of datas (KStr ''SeriesEpisode'') of None \<Rightarrow> PNone | Some v \<Rightarrow> v)
                 result2
           in case coerce_int ''season_number'' result3 of
                Inl e \<Rightarrow> Inl e
              | Inr result4 \<Rightarrow> coerce_int ''episode_number'' result4)
      | Some _ \<Rightarrow> Inl AttributeError)"

text \<open>
  The branch \<open>len(datas) > 0\<close> on a dictionary (lines 286 to 315): hash, IMDB id, kind and
  the fields of the kind.
\<close>

definition parse_fields :: "(pykey \<times> pyval) list \<Rightarrow> error + media_record" where
  "parse_fields datas =
     (let result = AList.update ''movie_hash''
            (case map_of datas (KStr ''MovieHash'') of None \<Rightarrow> PNone | Some v \<Rightarrow> v) []
      in case (case map_of datas (KStr ''MovieImdbID'') of
                 None \<Rightarrow> Inr result
               | Some v \<Rightarrow>
                   (case clean_imdbid v of
                      Inl e \<Rightarrow> Inl e
                    | Inr i \<Rightarrow> Inr (AList.update ''imdb_id'' i result)))
         of Inl e \<Rightarrow> Inl e
          | Inr result1 \<Rightarrow>
              (let kind = (case map_of datas (KStr ''MovieKind'') of None \<Rightarrow> PNone | Some v \<Rightarrow> v);
                   result2 = AList.update ''kind'' kind result1
               in if kind = PStr ''movie'' then
                    Inr (AList.update ''movie_year''
                      (case map_of datas (KStr ''MovieYear'') of None \<Rightarrow> PNone | Some v \<Rightarrow> v)
                      (AList.update ''movie_name''
                        (case map_of datas (KStr ''MovieName'') of None \<Rightarrow> PNone | Some v \<Rightarrow> v)
                        result2))
                  else if kind = PStr ''episode'' then parse_episode datas result2
                  else Inr result2))"

text \<open>
  The body of the loop after \<open>datas = datas[_hash]\<close> (lines 285 to 318). A non-empty string
  or list has no \<open>get\<close>.
\<close>

definition parse_entry :: "pykey \<Rightarrow> pyval \<Rightarrow> error + media_record" where
  "parse_entry mhash datas =
     (case py_len datas of
        Inl e \<Rightarrow> Inl e
      | Inr n \<Rightarrow>
          if 0 < n then
            (case datas of PDict d \<Rightarrow> parse_fields d | _ \<Rightarrow> Inl AttributeError)
          else Inr [(''movie_hash'', val_of_key mhash)])"

text \<open>
  The loop \<open>for _hash in datas\<close> (lines 282 to 318) over the keys of the dictionary it was
  started on. Its body assigns \<open>datas = datas[_hash]\<close>, so the next round indexes the entry
  of this round.
\<close>

fun parse_loop :: "pykey list \<Rightarrow> pyval \<Rightarrow> media_record list \<Rightarrow> error + media_record list" where
  "parse_loop [] datas ret = Inr ret"
| "parse_loop (mhash # rest) datas ret =
     (case py_getitem datas mhash of
        Inl e \<Rightarrow> Inl e
      | Inr entry \<Rightarrow>
          (case parse_entry mhash entry of
             Inl e \<Rightarrow> Inl e
           | Inr result \<Rightarrow> parse_loop rest entry (ret @ [result])))"

text \<open>\<open>{v['movie_hash']: v for v in ret}\<close> (line 321).\<close>

fun flatten :: "media_record list \<Rightarrow> (pykey \<times> media_record) list
    \<Rightarrow> error + (pykey \<times> media_record) list" where
  "flatten [] acc = Inr acc"
| "flatten (v # vs) acc =
     (case map_of v ''movie_hash'' of
        None \<Rightarrow> Inl (KeyError (KStr ''movie_hash''))
      | Some h \<Rightarrow>
          (case key_of h of
             None \<Rightarrow> Inl TypeError
           | Some k \<Rightarrow> flatten vs (AList.update k v acc)))"

text \<open>\<open>_parse_dict\<close> (lines 279 to 323).\<close>

definition parse_dict :: "client \<Rightarrow> (pykey \<times> pyval) list
    \<Rightarrow> (error + (pykey \<times> media_record) list) \<times> client" where
  "parse_dict c datas =
     (case parse_loop (map fst datas) (PDict datas) [] of
        Inl e \<Rightarrow> (Inl e, c)
      | Inr ret \<Rightarrow>
          (case flatten ret [] of
             Inl e \<Rightarrow> (Inl e, c)
           | Inr infos \<Rightarrow>
               (case store_state c of
                  (Inl e, c1) \<Rightarrow> (Inl e, c1)
                | (Inr _, c1) \<Rightarrow> (Inr infos, c1))))"

section \<open>Looking fingerprints up: \<open>get_infos\<close> and \<open>get_files_infos\<close>\<close>

text \<open>\<open>str(e)\<close> of an exception: the message it carries.\<close>

fun message_of :: "error \<Rightarrow> string" where
  "message_of (OpenSutitlesError m) = m"
| "message_of (OpenSutitlesInvalidParam m) = m"
| "message_of (OpenSutitlesNetworkError m) = m"
| "message_of (ProtocolError code m) = m"
| "message_of (SocketError m) = m"
| "message_of (OtherException m) = m"
| "message_of _ = []"

text \<open>
  The \<open>try\<close> block of \<open>get_infos\<close> (lines 238 to 241): register, note the time of the
  query, call \<open>CheckMovieHash\<close>.
\<close>

definition check_movie_hash_call :: "server \<Rightarrow> int \<Rightarrow> client \<Rightarrow> pykey list
    \<Rightarrow> (error + reply) \<times> client" where
  "check_movie_hash_call srv now c movie_hash =
     (case register srv now c of
        (Inl e, c1) \<Rightarrow> (Inl e, c1)
      | (Inr _, c1) \<Rightarrow>
          (let c2 = c1\<lparr>last_query_time := Some now\<rparr>;
               c3 = c2\<lparr>calls := calls c2 @ [CallCheckMovieHash (token_or_False c2) movie_hash]\<rparr>
           in (CheckMovieHash srv (token_or_False c2) movie_hash, c3)))"

text \<open>
  Its \<open>except\<close> clauses (lines 242 to 252), in their order; \<open>OpenSutitlesTimeoutError\<close> is a
  subclass of \<open>socket.timeout\<close>.
\<close>

fun get_infos_except :: "error \<Rightarrow> error" where
  "get_infos_except SocketTimeout = OpenSutitlesTimeoutError"
| "get_infos_except OpenSutitlesTimeoutError = OpenSutitlesTimeoutError"
| "get_infos_except (ProtocolError errcode m) =
     (if errcode = 503 then OpenSutitlesServiceUnavailable else OpenSutitlesError m)"
| "get_infos_except (SocketError m) = OpenSutitlesNetworkError m"
| "get_infos_except e = OpenSutitlesError (message_of e)"

text \<open>
  \<open>{x['MovieHash']: x for x in datas if isinstance(x, dict)}\<close> (line 263), for a reply whose
  data is a list.
\<close>

fun rekey :: "pyval list \<Rightarrow> (pykey \<times> pyval) list \<Rightarrow> error + (pykey \<times> pyval) list" where
  "rekey [] acc = Inr acc"
| "rekey (PDict x # xs) acc =
     (case map_of x (KStr ''MovieHash'') of
        None \<Rightarrow> Inl (KeyError (KStr ''MovieHash''))
      | Some h \<Rightarrow>
          (case key_of h of
             None \<Rightarrow> Inl TypeError
           | Some k \<Rightarrow> rekey xs (AList.update k (PDict x) acc)))"
| "rekey (_ # xs) acc = rekey xs acc"

text \<open>
  What \<open>get_infos\<close> returns: a dictionary of records, or (line 266) an exception object,
  handed back with \<open>return\<close>.
\<close>

datatype infos_result = Infos "(pykey \<times> media_record) list" | Returned error

text \<open>\<open>"%s" % type(v)\<close>.\<close>

fun type_name :: "pyval \<Rightarrow> string" where
  "type_name PNone = ''<class 'NoneType'>''"
| "type_name (PBool b) = ''<class 'bool'>''"
| "type_name (PInt i) = ''<class 'int'>''"
| "type_name (PStr s) = ''<class 'str'>''"
| "type_name (PList xs) = ''<class 'list'>''"
| "type_name (PDict d) = ''<class 'dict'>''"

text \<open>The handling of the reply (lines 254 to 277).\<close>

definition get_infos_reply :: "client \<Rightarrow> reply \<Rightarrow> (error + infos_result) \<times> client" where
  "get_infos_reply c res =
     (if status res = STATUS_OK then
        (case data res of
           PDict datas \<Rightarrow>
             (case parse_dict c datas of
                (Inl e, c1) \<Rightarrow> (Inl e, c1)
              | (Inr infos, c1) \<Rightarrow> (Inr (Infos infos), c1))
         | PList datas \<Rightarrow>
             (case rekey datas [] of
                Inl e \<Rightarrow> (Inl e, c)
              | Inr datas1 \<Rightarrow>
                  (case parse_dict c datas1 of
                     (Inl e, c1) \<Rightarrow> (Inl e, c1)
                   | (Inr infos, c1) \<Rightarrow> (Inr (Infos infos), c1)))
         | datas \<Rightarrow>
             (Inr (Returned (InvalidResultOpenSutitlesError
                (''Can't parse '' @ type_name datas))), c))
      else if status res \<noteq> [] then
        (case split_on (CHR '' '') (status res) of
           [] \<Rightarrow> (Inl IndexError, c)
         | status_code # _ \<Rightarrow>
             (case map_of ERROR_STATUS_EXCEPTIONS status_code of
                Some exception \<Rightarrow> (Inl (exception (status res)), c)
              | None \<Rightarrow> (Inl (OpenSutitlesError (status res)), c)))
      else (Inl UnboundLocalError, c))"

text \<open>
  \<open>get_infos\<close> (lines 225 to 277), called with the tuple \<open>movie_hash\<close> of fingerprints and
  \<open>None\<close> placeholders.
\<close>

definition get_infos :: "server \<Rightarrow> int \<Rightarrow> client \<Rightarrow> pykey list
    \<Rightarrow> (error + infos_result) \<times> client" where
  "get_infos srv now c movie_hash =
     (if length movie_hash = 0 then (Inr (Infos []), c)
      else
        (let movie_hash1 = filter (\<lambda>x. x \<noteq> KNone) movie_hash in
         if length movie_hash1 = 0 then (Inr (Infos []), c)
         else
           case check_movie_hash_call srv now c movie_hash1 of
             (Inl e, c1) \<Rightarrow> (Inl (get_infos_except e), c1)
           | (Inr res, c1) \<Rightarrow> get_infos_reply c1 res))"



section \<open>Inserting fingerprints: \<open>insert_movie_hash\<close>\<close>

text \<open>
  The dictionaries of the caller live in a store; \<open>hashes\<close> is the list of their addresses,
  so that what the function assigns is seen by the caller, and the same dictionary may stand
  twice in the list.
\<close>

type_synonym heap = "nat \<Rightarrow> (pykey \<times> pyval) list"

text \<open>
  The loop that reformats the ids (lines 345 to 349): a missing key raises
  \<open>OpenSutitlesInvalidParam\<close>, a value that is no string has no \<open>replace\<close>.
\<close>

fun reformat_imdbids :: "nat list \<Rightarrow> heap \<Rightarrow> (error + unit) \<times> heap" where
  "reformat_imdbids [] h = (Inr (), h)"
| "reformat_imdbids (r # rs) h =
     (case map_of (h r) (KStr ''imdbid'') of
        None \<Rightarrow> (Inl (OpenSutitlesInvalidParam ''Key imdbid is missing''), h)
      | Some (PStr s) \<Rightarrow>
          reformat_imdbids rs
            (h(r := AList.update (KStr ''imdbid'') (PStr (replace ''tt'' [] s)) (h r)))
      | Some _ \<Rightarrow> (Inl AttributeError, h))"

text \<open>The \<open>try\<close> block (lines 352 to 355) and its \<open>except\<close> clauses (lines 356 to 366).\<close>

definition insert_movie_hash_call :: "server \<Rightarrow> int \<Rightarrow> client \<Rightarrow> (pykey \<times> pyval) list list
    \<Rightarrow> (error + reply) \<times> client" where
  "insert_movie_hash_call srv now c hashes =
     (case register srv now c of
        (Inl e, c1) \<Rightarrow> (Inl e, c1)
      | (Inr _, c1) \<Rightarrow>
          (let c2 = c1\<lparr>last_query_time := Some now\<rparr>;
               c3 = c2\<lparr>calls := calls c2 @ [CallInsertMovieHash (token_or_False c2) hashes]\<rparr>
           in (InsertMovieHash srv (token_or_False c2) hashes, c3)))"

fun insert_except :: "error \<Rightarrow> error" where
  "insert_except SocketTimeout = OpenSutitlesTimeoutError"
| "insert_except OpenSutitlesTimeoutError = OpenSutitlesTimeoutError"
| "insert_except (ProtocolError errcode m) =
     (if errcode = 503 then OpenSutitlesServiceUnavailable else OpenSutitlesError m)"
| "insert_except e = OpenSutitlesError (message_of e)"

text \<open>
  \<open>insert_movie_hash\<close> (lines 338 to 373). A status that neither contains \<open>408\<close> nor is
  \<open>200 OK\<close> falls off the end of the function, which returns \<open>None\<close>.
\<close>

definition insert_movie_hash :: "server \<Rightarrow> int \<Rightarrow> client \<Rightarrow> heap \<Rightarrow> nat list
    \<Rightarrow> (error + pyval) \<times> client \<times> heap" where
  "insert_movie_hash srv now c h hashes =
     (case reformat_imdbids hashes h of
        (Inl e, h1) \<Rightarrow> (Inl e, c, h1)
      | (Inr _, h1) \<Rightarrow>
          (case insert_movie_hash_call srv now c (map h1 hashes) of
             (Inl e, c1) \<Rightarrow> (Inl (insert_except e), c1, h1)
           | (Inr res, c1) \<Rightarrow>
               if contains ''408'' (status res)
               then (Inl (OpenSutitlesInvalidParam ''Invalid parameters''), c1, h1)
               else if status res = STATUS_OK then (Inr (data res), c1, h1)
               else (Inr PNone, c1, h1)))"

section \<open>Concrete clients, services and replies\<close>

text \<open>A client constructed with no state file, and a service whose login hands out a token
  and whose two other methods answer with a given reply.\<close>

definition fresh_client :: client where
  "fresh_client = init [] [] Missing"

definition server_replying :: "reply \<Rightarrow> server" where
  "server_replying res =
     \<lparr>LogIn = (\<lambda>u p. Inr (Some [(KStr ''token'', PStr ''tok'')])),
      CheckMovieHash = (\<lambda>t hs. Inr res),
      InsertMovieHash = (\<lambda>t hs. Inr res)\<rparr>"

text \<open>A data section with two fingerprints.\<close>

definition two_entries :: pyval where
  "two_entries = PDict
     [(KStr ''h1'', PDict [(KStr ''MovieHash'', PStr ''h1''), (KStr ''MovieKind'', PStr ''movie'')]),
      (KStr ''h2'', PDict [(KStr ''MovieHash'', PStr ''h2''), (KStr ''MovieKind'', PStr ''movie'')])]"

text \<open>Three dictionaries of a caller of \<open>insert_movie_hash\<close>, at the addresses 0, 1 and 2.\<close>

definition three_records :: heap where
  "three_records a =
     (if a = 0 then [(KStr ''imdbid'', PStr ''tt0111161''), (KStr ''moviehash'', PStr ''abc'')]
      else if a = 1 then [(KStr ''moviebytesize'', PInt 7), (KStr ''imdbid'', PStr ''1ttt2'')]
      else [(KStr ''moviehash'', PStr ''def'')])"




section \<open>Properties of the fingerprint\<close>

lemma and_mask64: "(x :: int) AND 0xFFFFFFFFFFFFFFFF = x mod 2 ^ 64"
proof -
  have "(0xFFFFFFFFFFFFFFFF :: int) = mask 64"
    by (simp add: mask_eq_exp_minus_1)
  then show ?thesis
    by (simp only: flip: take_bit_eq_mask) (simp add: take_bit_eq_mod)
qed

lemma hash_window_returns:
  "pos + 8 * k \<le> length f \<Longrightarrow> \<exists>h'. hash_window k f pos h = Inr (h', pos + 8 * k)"
proof (induction k arbitrary: pos h)
  case 0
  then show ?case by simp
next
  case (Suc k)
  then have len: "length (take 8 (drop pos f)) = 8" by simp
  from Suc.prems have "(pos + 8) + 8 * k \<le> length f" by simp
  from Suc.IH [OF this] len show ?case
    by (simp add: unpack_q_def Let_def add.assoc)
qed

lemma hash_window_range:
  "hash_window k f pos h = Inr (h', p) \<Longrightarrow> 0 < k \<or> (0 \<le> h \<and> h < 2 ^ 64)
     \<Longrightarrow> 0 \<le> h' \<and> h' < 2 ^ 64"
proof (induction k arbitrary: pos h)
  case 0
  then show ?case by simp
next
  case (Suc k)
  from Suc.prems(1) obtain l where
    run: "hash_window k f (pos + length (take 8 (drop pos f)))
            ((h + l) AND 0xFFFFFFFFFFFFFFFF) = Inr (h', p)"
    by (auto simp: Let_def split: sum.splits)
  have "0 \<le> (h + l) AND 0xFFFFFFFFFFFFFFFF \<and> (h + l) AND 0xFFFFFFFFFFFFFFFF < 2 ^ 64"
    by (simp only: and_mask64) simp
  with Suc.IH [OF run] show ?case by blast
qed

lemma hex_digits_charset: "set (hex_digits n) \<subseteq> set ''0123456789abcdef''"
proof (induction n rule: hex_digits.induct)
  case (1 n)
  have digit: "''0123456789abcdef'' ! d \<in> set ''0123456789abcdef''" if "d < 16" for d
    using that by (intro nth_mem) simp
  show ?case
  proof (cases "n < 16")
    case True
    with digit [of n] show ?thesis by (subst hex_digits.simps) simp
  next
    case False
    have "n mod 16 < 16" by simp
    from digit [OF this] 1 False show ?thesis by (subst hex_digits.simps) simp
  qed
qed

lemma hex_digits_length: "0 < k \<Longrightarrow> n < 16 ^ k \<Longrightarrow> length (hex_digits n) \<le> k"
proof (induction n arbitrary: k rule: hex_digits.induct)
  case (1 n)
  show ?case
  proof (cases "n < 16")
    case True
    with 1(2) show ?thesis by (subst hex_digits.simps) simp
  next
    case False
    with 1(3) have "1 < k" by (cases "k = 1") (use 1(2) in auto)
    then obtain j where k: "k = Suc j" and j: "0 < j" by (cases k) auto
    from 1(3) k have "n div 16 < 16 ^ j"
      by (simp add: less_mult_imp_div_less mult.commute)
    from 1(1) [OF False j this] k False show ?thesis
      by (subst hex_digits.simps) simp
  qed
qed

lemma fmt_016x_shape:
  assumes "0 \<le> h" and "h < 2 ^ 64"
  shows "length (fmt_016x h) = 16" and "set (fmt_016x h) \<subseteq> set ''0123456789abcdef''"
proof -
  have "nat h < 2 ^ 64" using assms by (simp add: nat_less_iff)
  also have "(2 :: nat) ^ 64 = 16 ^ 16" by simp
  finally have "length (hex_digits (nat h)) \<le> 16"
    by (intro hex_digits_length) simp_all
  with assms show "length (fmt_016x h) = 16"
    by (simp add: fmt_016x_def rjust_def)
  from assms hex_digits_charset [of "nat h"]
  show "set (fmt_016x h) \<subseteq> set ''0123456789abcdef''"
    by (auto simp: fmt_016x_def rjust_def)
qed

text \<open>
  Claim C9. For every file of at least 131072 bytes that is read without I/O error,
  \<open>get_hash\<close> returns a fingerprint: the rendering \<open>"%016x"\<close> of a value that is at least 0
  and below \<open>2 ^ 64\<close> (every addition is masked to 64 bits), so the string is exactly sixteen
  characters long, all of them lowercase hexadecimal digits: the digits of the value, with
  zeros in front of them.
\<close>

theorem get_hash_sixteen_hex:
  assumes "fs path = Readable f" and "131072 \<le> length f"
  shows "\<exists>h. get_hash fs path = Inr (Some (fmt_016x h)) \<and> 0 \<le> h \<and> h < 2 ^ 64
           \<and> length (fmt_016x h) = 16
           \<and> set (fmt_016x h) \<subseteq> set ''0123456789abcdef''
           \<and> fmt_016x h =
               replicate (16 - length (hex_digits (nat h))) (CHR ''0'') @ hex_digits (nat h)"
proof -
  from assms(2) have "0 + 8 * 8192 \<le> length f" by simp
  from hash_window_returns [OF this] obtain h1 where
    w1: "hash_window 8192 f 0 (int (length f)) = Inr (h1, 0 + 8 * 8192)" by blast
  let ?p = "nat (max 0 (int (length f) - 65536))"
  from assms(2) have "?p + 8 * 8192 \<le> length f" by simp
  from hash_window_returns [OF this] obtain h2 where
    w2: "hash_window 8192 f ?p h1 = Inr (h2, ?p + 8 * 8192)" by blast
  from hash_window_range [OF w2] have range: "0 \<le> h2" "h2 < 2 ^ 64" by simp_all
  from assms w1 w2 have "get_hash fs path = Inr (Some (fmt_016x h2))"
    by (simp add: get_hash_def Let_def)
  moreover from range have "fmt_016x h2 =
      replicate (16 - length (hex_digits (nat h2))) (CHR ''0'') @ hex_digits (nat h2)"
    by (simp add: fmt_016x_def rjust_def)
  ultimately show ?thesis using range fmt_016x_shape [OF range] by blast
qed

theorem get_hash_sixteen_hex_witness:
  "131072 \<le> length (replicate 131072 (0 :: byte))
   \<and> (\<exists>h. get_hash (\<lambda>p. Readable (replicate 131072 0)) ''a.mkv'' = Inr (Some (fmt_016x h))
        \<and> 0 \<le> h \<and> h < 2 ^ 64 \<and> length (fmt_016x h) = 16
        \<and> set (fmt_016x h) \<subseteq> set ''0123456789abcdef''
        \<and> fmt_016x h =
            replicate (16 - length (hex_digits (nat h))) (CHR ''0'') @ hex_digits (nat h))"
  using get_hash_sixteen_hex [of "\<lambda>p. Readable (replicate 131072 0)" "''a.mkv''"
      "replicate 131072 0"]
  by simp


section \<open>Calls without a fingerprint\<close>

text \<open>
  Claim C3, as amended. When \<open>get_infos\<close> is called with no fingerprint, or with \<open>None\<close>
  placeholders only, it returns the empty dictionary as an ordinary value (the module has no
  error for an empty request), and the client is left as it was: no remote call is issued.
\<close>

theorem get_infos_nothing_to_look_up:
  assumes "\<forall>k\<in>set movie_hash. k = KNone"
  shows "get_infos srv now c movie_hash = (Inr (Infos []), c)
    \<and> calls (snd (get_infos srv now c movie_hash)) = calls c"
proof -
  from assms have "filter (\<lambda>x. x \<noteq> KNone) movie_hash = []"
    by (simp add: filter_empty_conv)
  then show ?thesis by (simp add: get_infos_def)
qed

theorem get_infos_nothing_to_look_up_witness:
  "get_infos (server_replying \<lparr>status = ''200 OK'', data = PDict []\<rparr>) 0 fresh_client
      [KNone, KNone] = (Inr (Infos []), fresh_client)"
  using get_infos_nothing_to_look_up [of "[KNone, KNone]"
      "server_replying \<lparr>status = ''200 OK'', data = PDict []\<rparr>" 0 fresh_client]
  by simp

text \<open>The claim as stated fails: the call is no error, with no argument and with \<open>None\<close> only.\<close>

theorem get_infos_empty_request_counterexample:
  "fst (get_infos (server_replying \<lparr>status = ''200 OK'', data = PDict []\<rparr>) 0 fresh_client [])
     = Inr (Infos [])
   \<and> fst (get_infos (server_replying \<lparr>status = ''200 OK'', data = PDict []\<rparr>) 0 fresh_client
       [KNone, KNone]) = Inr (Infos [])"
  by code_simp

section \<open>Replies the parser does not accept\<close>

text \<open>
  Claim C4, on the code. A reply with status \<open>200 OK\<close> whose data section is a string is
  neither a mapping nor a sequence; \<open>get_infos\<close> hands the \<open>InvalidResultOpenSutitlesError\<close>
  object back as its return value and raises nothing.
\<close>

theorem get_infos_returns_invalid_result:
  "fst (get_infos (server_replying \<lparr>status = ''200 OK'', data = PStr ''oops''\<rparr>) 0 fresh_client
      [KStr ''h1''])
     = Inr (Returned (InvalidResultOpenSutitlesError ''Can't parse <class 'str'>''))"
  by code_simp

text \<open>
  Claim C2, on the code. A reply whose data section holds two fingerprints does not parse:
  the second round of the loop looks the second fingerprint up in the first entry.
\<close>

theorem parse_two_entries_fails:
  "fst (get_infos (server_replying \<lparr>status = ''200 OK'', data = two_entries\<rparr>) 0 fresh_client
      [KStr ''h1'', KStr ''h2'']) = Inl (KeyError (KStr ''h2''))"
  by code_simp



section \<open>The session\<close>

lemma store_state_session:
  "store_state c = (r, c') \<Longrightarrow>
     token c' = token c \<and> last_query_time c' = last_query_time c \<and> calls c' = calls c"
  by (auto simp: store_state_def split: option.splits)

lemma parse_dict_session:
  "parse_dict c datas = (r, c') \<Longrightarrow>
     token c' = token c \<and> last_query_time c' = last_query_time c \<and> calls c' = calls c"
  unfolding parse_dict_def
  by (auto split: sum.splits prod.splits dest!: store_state_session)

lemma get_infos_reply_session:
  "get_infos_reply c res = (r, c') \<Longrightarrow>
     token c' = token c \<and> last_query_time c' = last_query_time c \<and> calls c' = calls c"
  unfolding get_infos_reply_def
  by (auto split: if_splits sum.splits prod.splits pyval.splits option.splits list.splits
      dest!: parse_dict_session)

lemma register_login:
  assumes "is_token_expired now c" and "LogIn srv (user c) (password c) = Inr (Some d)"
    and "map_of d (KStr ''token'') = Some tok"
  shows "register srv now c =
    (Inr (), c\<lparr>calls := calls c @ [CallLogIn (user c) (password c)], token := tok\<rparr>)"
  using assms by (simp add: register_def)

lemma check_call_session:
  assumes "is_token_expired now c" and "LogIn srv (user c) (password c) = Inr (Some d)"
    and "map_of d (KStr ''token'') = Some tok"
  shows "token (snd (check_movie_hash_call srv now c hs)) = tok
     \<and> last_query_time (snd (check_movie_hash_call srv now c hs)) = Some now"
  using register_login [OF assms] by (simp add: check_movie_hash_call_def Let_def)

lemma get_infos_session:
  assumes "is_token_expired now c" and "LogIn srv (user c) (password c) = Inr (Some d)"
    and "map_of d (KStr ''token'') = Some tok" and "\<exists>k\<in>set mh. k \<noteq> KNone"
  shows "token (snd (get_infos srv now c mh)) = tok
     \<and> last_query_time (snd (get_infos srv now c mh)) = Some now"
proof -
  let ?hs = "filter (\<lambda>x. x \<noteq> KNone) mh"
  from assms(4) have ne: "mh \<noteq> []" "?hs \<noteq> []" by (auto simp: filter_empty_conv)
  obtain r c1 where call: "check_movie_hash_call srv now c ?hs = (r, c1)" by force
  with check_call_session [OF assms(1-3), of ?hs]
  have c1: "token c1 = tok" "last_query_time c1 = Some now" by simp_all
  show ?thesis
  proof (cases r)
    case (Inl e)
    with call ne c1 show ?thesis by (simp add: get_infos_def)
  next
    case (Inr res)
    obtain r' c' where rep: "get_infos_reply c1 res = (r', c')" by force
    from get_infos_reply_session [OF rep] c1 call ne Inr rep show ?thesis
      by (simp add: get_infos_def)
  qed
qed

text \<open>
  Claim C7, as amended. The token is not expired iff the token is present, the time of the
  last query is present and less than 14 minutes have passed since. So it is expired on a
  client constructed with no state file; it is not expired right after a \<open>get_infos\<close> that
  had to log in, got a token, and noted the time of its query (\<open>register\<close> itself does not
  note the time); and it is expired once 14 minutes have passed since the time noted.
\<close>

theorem session_validity:
  "(\<not> is_token_expired now c) =
     (token c \<noteq> PNone \<and> (\<exists>t. last_query_time c = Some t \<and> now - t < TOKEN_EXPIRATION))
   \<and> is_token_expired now (init usr pwd Missing)
   \<and> (is_token_expired now c \<and> LogIn srv (user c) (password c) = Inr (Some d)
        \<and> map_of d (KStr ''token'') = Some tok \<and> tok \<noteq> PNone
        \<and> (\<exists>k\<in>set movie_hash. k \<noteq> KNone)
      \<longrightarrow> \<not> is_token_expired now (snd (get_infos srv now c movie_hash)))
   \<and> (last_query_time c = Some t \<and> t + TOKEN_EXPIRATION \<le> later
      \<longrightarrow> is_token_expired later c)"
proof (intro conjI impI)
  show "(\<not> is_token_expired now c) =
     (token c \<noteq> PNone \<and> (\<exists>t. last_query_time c = Some t \<and> now - t < TOKEN_EXPIRATION))"
    by (cases "last_query_time c") (auto simp: is_token_expired_def)
  show "is_token_expired now (init usr pwd Missing)"
    by (simp add: is_token_expired_def init_def load_state_def)
next
  assume a: "is_token_expired now c \<and> LogIn srv (user c) (password c) = Inr (Some d)
        \<and> map_of d (KStr ''token'') = Some tok \<and> tok \<noteq> PNone
        \<and> (\<exists>k\<in>set movie_hash. k \<noteq> KNone)"
  then have "token (snd (get_infos srv now c movie_hash)) = tok
     \<and> last_query_time (snd (get_infos srv now c movie_hash)) = Some now"
    using get_infos_session [of now c srv d tok movie_hash] by blast
  with a show "\<not> is_token_expired now (snd (get_infos srv now c movie_hash))"
    by (simp add: is_token_expired_def TOKEN_EXPIRATION_def)
next
  assume "last_query_time c = Some t \<and> t + TOKEN_EXPIRATION \<le> later"
  then show "is_token_expired later c" by (simp add: is_token_expired_def)
qed

theorem session_validity_witness:
  "is_token_expired 0 fresh_client
   \<and> \<not> is_token_expired 0
        (snd (get_infos (server_replying \<lparr>status = ''200 OK'', data = PDict []\<rparr>) 0
           fresh_client [KStr ''h1'']))
   \<and> is_token_expired 840000000
        (snd (get_infos (server_replying \<lparr>status = ''200 OK'', data = PDict []\<rparr>) 0
           fresh_client [KStr ''h1'']))"
proof -
  let ?srv = "server_replying \<lparr>status = ''200 OK'', data = PDict []\<rparr>"
  let ?d = "[(KStr ''token'', PStr ''tok'')]"
  let ?c' = "snd (get_infos ?srv 0 fresh_client [KStr ''h1''])"
  have fresh: "is_token_expired 0 fresh_client"
    using session_validity [of 0 fresh_client "[]" "[]"] by (simp add: fresh_client_def)
  have login: "LogIn ?srv (user fresh_client) (password fresh_client) = Inr (Some ?d)"
    by (simp add: server_replying_def)
  have "\<not> is_token_expired 0 ?c'"
    using session_validity [where now = 0 and c = fresh_client and srv = ?srv and d = ?d
        and tok = "PStr ''tok''" and movie_hash = "[KStr ''h1'']"] fresh login
    by simp
  moreover have "last_query_time ?c' = Some 0"
    by code_simp
  then have "is_token_expired 840000000 ?c'"
    using session_validity [where c = ?c' and t = 0 and later = 840000000]
    by (simp add: TOKEN_EXPIRATION_def)
  ultimately show ?thesis using fresh by simp
qed

text \<open>
  The claim as stated fails: on a client constructed with no state file, a login that gets
  a token leaves the token expired, since no time has been noted yet.
\<close>

theorem register_alone_counterexample:
  "token (snd (register (server_replying \<lparr>status = ''200 OK'', data = PDict []\<rparr>) 0
      fresh_client)) = PStr ''tok''
   \<and> is_token_expired 0
       (snd (register (server_replying \<lparr>status = ''200 OK'', data = PDict []\<rparr>) 0
          fresh_client))"
  by code_simp



section \<open>The status of a reply\<close>























section \<open>Reformatting the ids of the caller's records\<close>






lemma reformat_imdbids_missing:
  assumes "\<exists>r\<in>set hashes. map_of (h r) (KStr ''imdbid'') = None"
    and "\<forall>r\<in>set hashes. \<forall>v. map_of (h r) (KStr ''imdbid'') = Some v \<longrightarrow> (\<exists>s. v = PStr s)"
  shows "\<exists>h'. reformat_imdbids hashes h =
     (Inl (OpenSutitlesInvalidParam ''Key imdbid is missing''), h')"
  using assms
proof (induction hashes arbitrary: h)
  case Nil
  then show ?case by simp
next
  case (Cons r rs)
  show ?case
  proof (cases "map_of (h r) (KStr ''imdbid'')")
    case None
    then show ?thesis by simp
  next
    case (Some v)
    with Cons.prems(2) obtain s where v: "v = PStr s" by auto
    let ?h1 = "h(r := AList.update (KStr ''imdbid'') (PStr (replace ''tt'' [] s)) (h r))"
    from Cons.prems(1) Some obtain r' where r': "r' \<in> set rs" "map_of (h r') (KStr ''imdbid'') = None"
      by auto
    with Some have "r' \<noteq> r" by auto
    with r' have 1: "\<exists>r\<in>set rs. map_of (?h1 r) (KStr ''imdbid'') = None" by auto
    have 2: "\<forall>r\<in>set rs. \<forall>v. map_of (?h1 r) (KStr ''imdbid'') = Some v \<longrightarrow> (\<exists>s. v = PStr s)"
      using Cons.prems(2) by (auto simp: update_conv')
    from Cons.IH [OF 1 2] obtain h' where
      "reformat_imdbids rs ?h1 = (Inl (OpenSutitlesInvalidParam ''Key imdbid is missing''), h')"
      by blast
    with Some v show ?thesis by simp
  qed
qed

text \<open>
  Claim C6, as amended. When some record lacks the key \<open>imdbid\<close> (and the ids that are
  present are strings), \<open>insert_movie_hash\<close> raises \<open>OpenSutitlesInvalidParam\<close> with the message
  \<open>Key imdbid is missing\<close>, and it does so before any remote call: the client, with the calls
  it has issued, is as it was.
\<close>

theorem insert_movie_hash_missing_imdbid:
  assumes "\<exists>r\<in>set hashes. map_of (h r) (KStr ''imdbid'') = None"
    and "\<forall>r\<in>set hashes. \<forall>v. map_of (h r) (KStr ''imdbid'') = Some v \<longrightarrow> (\<exists>s. v = PStr s)"
  shows "\<exists>h'. insert_movie_hash srv now c h hashes =
      (Inl (OpenSutitlesInvalidParam ''Key imdbid is missing''), c, h')
    \<and> calls (fst (snd (insert_movie_hash srv now c h hashes))) = calls c"
proof -
  from reformat_imdbids_missing [OF assms] obtain h' where
    "reformat_imdbids hashes h = (Inl (OpenSutitlesInvalidParam ''Key imdbid is missing''), h')"
    by blast
  then show ?thesis by (simp add: insert_movie_hash_def)
qed

theorem insert_movie_hash_missing_imdbid_witness:
  "fst (insert_movie_hash (server_replying \<lparr>status = ''200 OK'', data = PStr ''ack''\<rparr>) 0
      fresh_client three_records [0, 2]) = Inl (OpenSutitlesInvalidParam ''Key imdbid is missing'')
   \<and> fst (snd (insert_movie_hash (server_replying \<lparr>status = ''200 OK'', data = PStr ''ack''\<rparr>) 0
      fresh_client three_records [0, 2])) = fresh_client"
proof -
  have 1: "\<exists>r\<in>set [0, 2]. map_of (three_records r) (KStr ''imdbid'') = None"
    by (simp add: three_records_def)
  have 2: "\<forall>r\<in>set [0, 2]. \<forall>v. map_of (three_records r) (KStr ''imdbid'') = Some v
      \<longrightarrow> (\<exists>s. v = PStr s)"
    by (simp add: three_records_def)
  from insert_movie_hash_missing_imdbid [OF 1 2, of "server_replying \<lparr>status = ''200 OK'', data = PStr ''ack''\<rparr>" 0 fresh_client]
  obtain h' where "insert_movie_hash (server_replying \<lparr>status = ''200 OK'', data = PStr ''ack''\<rparr>) 0
      fresh_client three_records [0, 2]
      = (Inl (OpenSutitlesInvalidParam ''Key imdbid is missing''), fresh_client, h')"
    by blast
  then show ?thesis by simp
qed

text \<open>The claim as stated fails: the error raised is not \<open>MandatoryParameterMissing\<close>.\<close>

theorem insert_movie_hash_missing_imdbid_counterexample:
  "fst (insert_movie_hash (server_replying \<lparr>status = ''200 OK'', data = PStr ''ack''\<rparr>) 0
      fresh_client three_records [0, 2]) = Inl (OpenSutitlesInvalidParam ''Key imdbid is missing'')"
  by code_simp



section \<open>Episodes\<close>








section \<open>Looking files up\<close>
















end
